theory Spec2Isabelle
  imports Complex_Main
begin

section \<open>The host language: strings, numbers, arrays and maps\<close>

text \<open>
  The analysis code reads rows of a CSV file as \<^verbatim>\<open>Record<string, string>\<close>: a column that the
  file does not have reads as \<^verbatim>\<open>undefined\<close>. A row is a partial map from column names to strings.

  A JavaScript \<^verbatim>\<open>number\<close> is modelled by a real: arithmetic is exact, \<^verbatim>\<open>NaN\<close> is the value
  \<open>None\<close> of an option at the places where it can arise (the result of \<^verbatim>\<open>Number(...)\<close>), and
  the rounding of IEEE doubles and the infinities are outside the model.
\<close>

type_synonym AnyCsv = "string \<Rightarrow> string option"

definition isWhite :: "char \<Rightarrow> bool" where
  "isWhite c = (c = CHR '' '' \<or> c = CHR 0x09 \<or> c = CHR 0x0A \<or> c = CHR 0x0D)"

definition trim :: "string \<Rightarrow> string" where
  "trim s = rev (dropWhile isWhite (rev (dropWhile isWhite s)))"

definition isDigit :: "char \<Rightarrow> bool" where
  "isDigit c = (48 \<le> (of_char c :: nat) \<and> (of_char c :: nat) \<le> 57)"

definition digitsVal :: "string \<Rightarrow> nat" where
  "digitsVal s = foldl (\<lambda>acc c. 10 * acc + ((of_char c :: nat) - 48)) 0 s"

definition unsignedDecimal :: "string \<Rightarrow> real option" where
  "unsignedDecimal s =
     (let ip = takeWhile (\<lambda>c. c \<noteq> CHR ''.'') s;
          rest = dropWhile (\<lambda>c. c \<noteq> CHR ''.'') s;
          fp = (if rest = [] then [] else tl rest)
      in if list_all isDigit ip \<and> list_all isDigit fp \<and> (ip \<noteq> [] \<or> fp \<noteq> [])
         then Some (real (digitsVal ip) + real (digitsVal fp) / 10 ^ length fp)
         else None)"

text \<open>
  \<^verbatim>\<open>Number(s)\<close> on a string, for the decimal literals of the CSV files: white space is trimmed,
  the empty string is 0, an optional sign is followed by digits with an optional fraction, and
  every other string is \<^verbatim>\<open>NaN\<close>. (Exponents, hexadecimal literals and \<^verbatim>\<open>Infinity\<close> are not
  modelled.) The theorems below speak of the result of the conversion only.
\<close>

definition StringToNumber :: "string \<Rightarrow> real option" where
  "StringToNumber s =
     (let t = trim s in
      if t = [] then Some 0
      else if hd t = CHR ''-'' then map_option uminus (unsignedDecimal (tl t))
      else if hd t = CHR ''+'' then unsignedDecimal (tl t)
      else unsignedDecimal t)"

text \<open>\<^verbatim>\<open>Number(v)\<close> where \<open>v\<close> may be \<^verbatim>\<open>undefined\<close>: \<^verbatim>\<open>Number(undefined)\<close> is \<^verbatim>\<open>NaN\<close>.\<close>

definition Number :: "string option \<Rightarrow> real option" where
  "Number v = (case v of None \<Rightarrow> None | Some s \<Rightarrow> StringToNumber s)"

text \<open>\<^verbatim>\<open>x || y\<close> on numbers: \<open>y\<close> when \<open>x\<close> is \<^verbatim>\<open>NaN\<close> or 0.\<close>

definition numOr :: "real option \<Rightarrow> 'a \<Rightarrow> (real \<Rightarrow> 'a) \<Rightarrow> 'a" where
  "numOr x y k = (case x of None \<Rightarrow> y | Some n \<Rightarrow> if n = 0 then y else k n)"

text \<open>\<^verbatim>\<open>v ?? ""\<close> and \<^verbatim>\<open>String(v)\<close> on a string that may be \<^verbatim>\<open>undefined\<close>.\<close>

definition orEmpty :: "string option \<Rightarrow> string" where
  "orEmpty v = (case v of None \<Rightarrow> [] | Some s \<Rightarrow> s)"

definition StringOf :: "string option \<Rightarrow> string" where
  "StringOf v = (case v of None \<Rightarrow> ''undefined'' | Some s \<Rightarrow> s)"

text \<open>A string is truthy when it is defined and not empty.\<close>

definition truthy :: "string option \<Rightarrow> bool" where
  "truthy v = (case v of None \<Rightarrow> False | Some s \<Rightarrow> s \<noteq> [])"

text \<open>\<^verbatim>\<open>toLowerCase\<close> on the ASCII letters; other bytes are kept.\<close>

definition lowerChar :: "char \<Rightarrow> char" where
  "lowerChar c = (if 65 \<le> (of_char c :: nat) \<and> (of_char c :: nat) \<le> 90
                  then char_of ((of_char c :: nat) + 32) else c)"

definition toLowerCase :: "string \<Rightarrow> string" where
  "toLowerCase s = map lowerChar s"

text \<open>\<^verbatim>\<open>s.split(c)\<close> for a one-character separator: never empty, \<^verbatim>\<open>"".split(":")\<close> is \<^verbatim>\<open>[""]\<close>.\<close>

fun split :: "char \<Rightarrow> string \<Rightarrow> string list" where
  "split c [] = [[]]"
| "split c (x # xs) =
     (if x = c then [] # split c xs
      else (case split c xs of [] \<Rightarrow> [[x]] | w # ws \<Rightarrow> (x # w) # ws))"

text \<open>\<^verbatim>\<open>xs[i]\<close>: \<^verbatim>\<open>undefined\<close> out of range.\<close>

definition elemAt :: "'a list \<Rightarrow> nat \<Rightarrow> 'a option" where
  "elemAt xs i = (if i < length xs then Some (xs ! i) else None)"

text \<open>\<^verbatim>\<open>arr.findIndex(p)\<close>: the first index whose element satisfies \<open>p\<close>, or \<open>-1\<close>.\<close>

fun findIndex :: "('a \<Rightarrow> bool) \<Rightarrow> 'a list \<Rightarrow> int" where
  "findIndex p [] = - 1"
| "findIndex p (x # xs) =
     (if p x then 0 else (let i = findIndex p xs in if i < 0 then - 1 else i + 1))"

text \<open>
  \<^verbatim>\<open>arr.sort(cmp)\<close>: the sort of the language is stable, so for a comparator that is a total
  preorder its result is the one of insertion sort: an element goes before the first element
  that it does not compare greater than, and equal elements keep their order.
\<close>

fun insortBy :: "('a \<Rightarrow> 'a \<Rightarrow> real) \<Rightarrow> 'a \<Rightarrow> 'a list \<Rightarrow> 'a list" where
  "insortBy cmp x [] = [x]"
| "insortBy cmp x (y # ys) = (if cmp x y \<le> 0 then x # y # ys else y # insortBy cmp x ys)"

definition sortBy :: "('a \<Rightarrow> 'a \<Rightarrow> real) \<Rightarrow> 'a list \<Rightarrow> 'a list" where
  "sortBy cmp xs = foldr (insortBy cmp) xs []"

text \<open>
  \<^verbatim>\<open>a.localeCompare(b)\<close>, modelled by the comparison of the strings byte by byte (it agrees with
  the collation on zero-padded \<^verbatim>\<open>HH:MM:SS\<close> times). The theorems below use of the sorts by
  this comparator only that they permute their input.
\<close>

fun localeCompare :: "string \<Rightarrow> string \<Rightarrow> real" where
  "localeCompare [] [] = 0"
| "localeCompare [] (y # ys) = - 1"
| "localeCompare (x # xs) [] = 1"
| "localeCompare (x # xs) (y # ys) =
     (if (of_char x :: nat) < of_char y then - 1
      else if (of_char y :: nat) < of_char x then 1
      else localeCompare xs ys)"

text \<open>
  A \<^verbatim>\<open>Map<string, T[]>\<close> keeps its keys in the order of their first insertion, and the loops
  over it run in that order: an association list. \<open>mapPush\<close> is the idiom
  \<^verbatim>\<open>if (!m.has(k)) m.set(k, []); m.get(k).push(v)\<close>.
\<close>

fun mapPush :: "('k \<times> 'v list) list \<Rightarrow> 'k \<Rightarrow> 'v \<Rightarrow> ('k \<times> 'v list) list" where
  "mapPush [] k v = [(k, [v])]"
| "mapPush ((k', vs) # m) k v =
     (if k' = k then (k', vs @ [v]) # m else (k', vs) # mapPush m k v)"

section \<open>through.ts: through trains and transfers at Tanah Abang\<close>

text \<open>The values of the \<^verbatim>\<open>trains\<close> map, and the \<^verbatim>\<open>meta\<close> of a leg.\<close>

record TrainMeta =
  meta_dest :: "string option"
  meta_ka_name :: "string option"
  meta_route_name :: "string option"

record LegMeta =
  leg_ka_name :: "string option"
  leg_route_name :: "string option"

record ThroughResult =
  train_id :: string
  ka_name :: "string option"
  route_name :: "string option"
  depart_via_time :: "string option"
  via_index :: real
  continues_to_dest :: bool

text \<open>\<^verbatim>\<open>r["train_id"] ?? ""\<close>, and the grouping loop at the head of every function.\<close>

definition trainIdOf :: "AnyCsv \<Rightarrow> string" where
  "trainIdOf r = orEmpty (r ''train_id'')"

definition groupByTrain :: "AnyCsv list \<Rightarrow> (string \<times> AnyCsv list) list" where
  "groupByTrain rows = foldl (\<lambda>m r. mapPush m (trainIdOf r) r) [] rows"

text \<open>The comparator \<^verbatim>\<open>(Number(a["stop_index"]) || 0) - (Number(b["stop_index"]) || 0)\<close>.\<close>

definition stopIndex :: "AnyCsv \<Rightarrow> real" where
  "stopIndex r = numOr (Number (r ''stop_index'')) 0 (\<lambda>n. n)"

definition sortStops :: "AnyCsv list \<Rightarrow> AnyCsv list" where
  "sortStops arr = sortBy (\<lambda>a b. stopIndex a - stopIndex b) arr"

text \<open>\<^verbatim>\<open>(r["station_name"] ?? "").toLowerCase()\<close>.\<close>

definition stationLower :: "AnyCsv \<Rightarrow> string" where
  "stationLower r = toLowerCase (orEmpty (r ''station_name''))"

text \<open>The body of the loop over the trains of \<^verbatim>\<open>findThrough\<close>: \<open>None\<close> is \<^verbatim>\<open>continue\<close>.\<close>

definition throughOf ::
  "(string \<Rightarrow> TrainMeta option) \<Rightarrow> string \<Rightarrow> string \<Rightarrow> string \<times> AnyCsv list \<Rightarrow> ThroughResult option" where
  "throughOf trains via dest g =
     (let tid = fst g;
          arr = sortStops (snd g);
          viaIdx = findIndex (\<lambda>r. stationLower r = toLowerCase via) arr in
      if viaIdx < 0 then None
      else let taIdx = findIndex (\<lambda>r. stationLower r = toLowerCase ''tanah abang'') arr in
      if taIdx < 0 then None
      else if \<not> viaIdx < taIdx then None
      else let destIdx = findIndex (\<lambda>r. stationLower r = toLowerCase dest) arr;
               continues = (destIdx > taIdx) in
      if \<not> continues then None
      else let meta = (case trains tid of None \<Rightarrow> \<lparr>meta_dest = None, meta_ka_name = None, meta_route_name = None\<rparr>
                       | Some m \<Rightarrow> m);
               v = arr ! nat viaIdx in
      Some \<lparr>train_id = tid,
            ka_name = meta_ka_name meta,
            route_name = meta_route_name meta,
            depart_via_time = v ''time_est'',
            via_index = numOr (Number (v ''stop_index'')) (real_of_int viaIdx) (\<lambda>n. n),
            continues_to_dest = True\<rparr>)"

definition findThrough ::
  "AnyCsv list \<Rightarrow> (string \<Rightarrow> TrainMeta option) \<Rightarrow> string \<Rightarrow> string \<Rightarrow> ThroughResult list" where
  "findThrough stops trains via dest =
     (let byTrain = groupByTrain stops;
          res = List.map_filter (throughOf trains via dest) byTrain in
      sortBy (\<lambda>a b. localeCompare (StringOf (depart_via_time a)) (StringOf (depart_via_time b))) res)"

text \<open>
  \<^verbatim>\<open>hmsToMin\<close> of through.ts (the method of the command module has the same text): whole
  minutes of a clock time, \<open>None\<close> for \<^verbatim>\<open>null\<close>.
\<close>

definition hmsToMin :: "string option \<Rightarrow> real option" where
  "hmsToMin hms =
     (case hms of None \<Rightarrow> None
      | Some str \<Rightarrow>
          if str = [] then None
          else let parts = split (CHR '':'') str;
                   hStr = elemAt parts 0;
                   mStr = elemAt parts 1;
                   sStr = (case elemAt parts 2 of None \<Rightarrow> Some ''0'' | Some x \<Rightarrow> Some x)
               in (case (Number hStr, Number mStr) of
                     (Some h, Some m) \<Rightarrow>
                       Some (h * 60 + m + (case Number sStr of None \<Rightarrow> 0 | Some s \<Rightarrow> real_of_int \<lfloor>s / 60\<rfloor>))
                   | _ \<Rightarrow> None))"

record PairResult =
  from_train_id :: string
  to_train_id :: string
  pair_depart_via_time :: string
  arrive_ta_time :: string
  depart_ta_time :: string
  arrive_dest_time :: "string option"
  wait_min :: real
  meta_from :: "LegMeta option"
  meta_to :: "LegMeta option"

record LegA =
  a_trainId :: string
  departVia :: string
  arriveTA :: string
  departViaMin :: real
  arriveTAMin :: real
  a_meta :: "LegMeta option"

record LegB =
  b_trainId :: string
  departTA :: string
  arriveDest :: "string option"
  departTAMin :: real
  arriveDestMin :: "real option"
  b_meta :: "LegMeta option"

text \<open>\<^verbatim>\<open>meta ? { ka_name: meta.ka_name, route_name: meta.route_name } : undefined\<close>.\<close>

definition legMeta :: "TrainMeta option \<Rightarrow> LegMeta option" where
  "legMeta meta = map_option (\<lambda>m. \<lparr>leg_ka_name = meta_ka_name m, leg_route_name = meta_route_name m\<rparr>) meta"

text \<open>\<^verbatim>\<open>Number(r["time_est_min"]) || hmsToMin(r["time_est"])\<close>.\<close>

definition minuteOf :: "AnyCsv \<Rightarrow> real option" where
  "minuteOf r = numOr (Number (r ''time_est_min'')) (hmsToMin (r ''time_est'')) Some"

text \<open>The bodies of the loops that build the inbound legs (via to hub) and the outbound legs
  (hub to destination).\<close>

definition legAOf :: "(string \<Rightarrow> TrainMeta option) \<Rightarrow> string \<Rightarrow> string \<times> AnyCsv list \<Rightarrow> LegA option" where
  "legAOf trains via g =
     (let tid = fst g;
          arr = sortStops (snd g);
          idxVia = findIndex (\<lambda>r. stationLower r = toLowerCase via) arr;
          idxTA = findIndex (\<lambda>r. stationLower r = toLowerCase ''tanah abang'') arr;
          meta = trains tid in
      if idxVia \<ge> 0 \<and> idxTA > idxVia then
        (let dv = (arr ! nat idxVia) ''time_est'';
             ata = (arr ! nat idxTA) ''time_est'';
             dvMin = minuteOf (arr ! nat idxVia);
             atMin = minuteOf (arr ! nat idxTA) in
         if truthy dv \<and> truthy ata \<and> dvMin \<noteq> None \<and> atMin \<noteq> None then
           Some \<lparr>a_trainId = tid, departVia = the dv, arriveTA = the ata,
                 departViaMin = the dvMin, arriveTAMin = the atMin, a_meta = legMeta meta\<rparr>
         else None)
      else None)"

definition legBOf :: "(string \<Rightarrow> TrainMeta option) \<Rightarrow> string \<Rightarrow> string \<times> AnyCsv list \<Rightarrow> LegB option" where
  "legBOf trains dest g =
     (let tid = fst g;
          arr = sortStops (snd g);
          idxTA = findIndex (\<lambda>r. stationLower r = toLowerCase ''tanah abang'') arr;
          idxDest = findIndex (\<lambda>r. stationLower r = toLowerCase dest) arr;
          meta = trains tid in
      if idxTA \<ge> 0 \<and> idxDest > idxTA then
        (let dt = (arr ! nat idxTA) ''time_est'';
             ad = (arr ! nat idxDest) ''time_est'';
             dtMin = minuteOf (arr ! nat idxTA);
             adMin = minuteOf (arr ! nat idxDest) in
         if truthy dt \<and> dtMin \<noteq> None then
           Some \<lparr>b_trainId = tid, departTA = the dt, arriveDest = ad,
                 departTAMin = the dtMin, arriveDestMin = adMin, b_meta = legMeta meta\<rparr>
         else None)
      else None)"

definition inboundLegs :: "AnyCsv list \<Rightarrow> (string \<Rightarrow> TrainMeta option) \<Rightarrow> string \<Rightarrow> LegA list" where
  "inboundLegs stopsPre trains via = List.map_filter (legAOf trains via) (groupByTrain stopsPre)"

text \<open>The outbound legs after \<^verbatim>\<open>legBs.sort((a, b) => a.departTAMin - b.departTAMin)\<close>.\<close>

definition outboundLegs :: "AnyCsv list \<Rightarrow> (string \<Rightarrow> TrainMeta option) \<Rightarrow> string \<Rightarrow> LegB list" where
  "outboundLegs stopsPost trains dest =
     sortBy (\<lambda>a b. departTAMin a - departTAMin b)
       (List.map_filter (legBOf trains dest) (groupByTrain stopsPost))"

definition waitDiffMin :: "real \<Rightarrow> real \<Rightarrow> real" where
  "waitDiffMin arrive depart = (let d = depart - arrive in if d < 0 then d + 24 * 60 else d)"

text \<open>The binary search \<^verbatim>\<open>while (lo < hi) { mid = (lo + hi) >> 1; ... }\<close> for the first
  departure that is not before the arrival.\<close>

function lowerBound :: "LegB list \<Rightarrow> real \<Rightarrow> nat \<Rightarrow> nat \<Rightarrow> nat" where
  "lowerBound legBs x lo hi =
     (if lo < hi then
        (let mid = (lo + hi) div 2 in
         if departTAMin (legBs ! mid) < x then lowerBound legBs x (mid + 1) hi
         else lowerBound legBs x lo mid)
      else lo)"
  by pat_completeness auto
termination
  by (relation "measure (\<lambda>(legBs, x, lo, hi). hi - lo)") auto

declare lowerBound.simps [simp del]

text \<open>
  The candidates are elements of \<^verbatim>\<open>legBs\<close>, all distinct objects, and \<^verbatim>\<open>includes\<close> compares
  objects by identity: a candidate is its index in \<^verbatim>\<open>legBs\<close>. \<^verbatim>\<open>legBs[i]\<close> out of range is
  \<^verbatim>\<open>undefined\<close> and is not added.
\<close>

definition addCand :: "LegB list \<Rightarrow> nat list \<Rightarrow> nat \<Rightarrow> nat list" where
  "addCand legBs candidates i =
     (if i < length legBs \<and> i \<notin> set candidates then candidates @ [i] else candidates)"

definition candidatesAt :: "LegB list \<Rightarrow> nat \<Rightarrow> nat list" where
  "candidatesAt legBs lo = addCand legBs (addCand legBs (addCand legBs [] lo) (lo + 1)) 0"

text \<open>The loop over the candidates: \<open>best\<close> is the index of the leg and its wait.\<close>

fun pickBest :: "real option \<Rightarrow> real \<Rightarrow> LegB list \<Rightarrow> nat list \<Rightarrow> (nat \<times> real) option \<Rightarrow> (nat \<times> real) option" where
  "pickBest maxWaitMin arrive legBs [] best = best"
| "pickBest maxWaitMin arrive legBs (i # cands) best =
     (let wait = waitDiffMin arrive (departTAMin (legBs ! i)) in
      if (case maxWaitMin of None \<Rightarrow> False | Some m \<Rightarrow> wait > m)
      then pickBest maxWaitMin arrive legBs cands best
      else if (case best of None \<Rightarrow> True | Some bw \<Rightarrow> wait < snd bw)
      then pickBest maxWaitMin arrive legBs cands (Some (i, wait))
      else pickBest maxWaitMin arrive legBs cands best)"

text \<open>The body of the loop over the inbound legs: the pair pushed for \<open>a\<close>, if any.\<close>

definition matchLeg :: "real option \<Rightarrow> LegB list \<Rightarrow> LegA \<Rightarrow> PairResult option" where
  "matchLeg maxWaitMin legBs a =
     (let lo = lowerBound legBs (arriveTAMin a) 0 (length legBs);
          candidates = candidatesAt legBs lo in
      case pickBest maxWaitMin (arriveTAMin a) legBs candidates None of
        None \<Rightarrow> None
      | Some bw \<Rightarrow>
          Some \<lparr>from_train_id = a_trainId a,
                to_train_id = b_trainId (legBs ! fst bw),
                pair_depart_via_time = departVia a,
                arrive_ta_time = arriveTA a,
                depart_ta_time = departTA (legBs ! fst bw),
                arrive_dest_time = arriveDest (legBs ! fst bw),
                wait_min = snd bw,
                meta_from = a_meta a,
                meta_to = b_meta (legBs ! fst bw)\<rparr>)"

text \<open>The comparator \<^verbatim>\<open>x.wait_min - y.wait_min || String(x.depart_via_time).localeCompare(...)\<close>.\<close>

definition pairOrder :: "PairResult \<Rightarrow> PairResult \<Rightarrow> real" where
  "pairOrder x y =
     (let d = wait_min x - wait_min y in
      if d \<noteq> 0 then d else localeCompare (pair_depart_via_time x) (pair_depart_via_time y))"

definition buildTransferPairs ::
  "AnyCsv list \<Rightarrow> AnyCsv list \<Rightarrow> (string \<Rightarrow> TrainMeta option) \<Rightarrow> string \<Rightarrow> string \<Rightarrow> real option
     \<Rightarrow> PairResult list" where
  "buildTransferPairs stopsPre stopsPost trains via dest maxWaitMin =
     (let legAs = inboundLegs stopsPre trains via;
          legBs = outboundLegs stopsPost trains dest;
          pairs = List.map_filter (matchLeg maxWaitMin legBs) legAs in
      sortBy pairOrder pairs)"

section \<open>The through command of the command module\<close>

text \<open>
  \<^verbatim>\<open>ThroughCommand.findThrough\<close> and \<^verbatim>\<open>ThroughCommand.buildTransferPairs\<close>. Their text differs
  from the functions of through.ts in two places only: the hub is compared with the literal
  \<^verbatim>\<open>"tanah abang"\<close> and not with \<^verbatim>\<open>"tanah abang".toLowerCase()\<close>, and the results of
  \<^verbatim>\<open>hmsToMin\<close> carry a non-null assertion, which is erased when the program runs. The helpers
  whose text is the same (\<^verbatim>\<open>hmsToMin\<close>, \<^verbatim>\<open>waitDiffMin\<close>, the search and the loop over the
  candidates) are embedded once.
\<close>

definition ThroughCommand_throughOf ::
  "(string \<Rightarrow> TrainMeta option) \<Rightarrow> string \<Rightarrow> string \<Rightarrow> string \<times> AnyCsv list \<Rightarrow> ThroughResult option" where
  "ThroughCommand_throughOf trains via dest g =
     (let tid = fst g;
          arr = sortStops (snd g);
          viaIdx = findIndex (\<lambda>r. stationLower r = toLowerCase via) arr in
      if viaIdx < 0 then None
      else let taIdx = findIndex (\<lambda>r. stationLower r = ''tanah abang'') arr in
      if taIdx < 0 then None
      else if \<not> viaIdx < taIdx then None
      else let destIdx = findIndex (\<lambda>r. stationLower r = toLowerCase dest) arr;
               continues = (destIdx > taIdx) in
      if \<not> continues then None
      else let meta = (case trains tid of None \<Rightarrow> \<lparr>meta_dest = None, meta_ka_name = None, meta_route_name = None\<rparr>
                       | Some m \<Rightarrow> m);
               v = arr ! nat viaIdx in
      Some \<lparr>train_id = tid,
            ka_name = meta_ka_name meta,
            route_name = meta_route_name meta,
            depart_via_time = v ''time_est'',
            via_index = numOr (Number (v ''stop_index'')) (real_of_int viaIdx) (\<lambda>n. n),
            continues_to_dest = True\<rparr>)"

definition ThroughCommand_findThrough ::
  "AnyCsv list \<Rightarrow> (string \<Rightarrow> TrainMeta option) \<Rightarrow> string \<Rightarrow> string \<Rightarrow> ThroughResult list" where
  "ThroughCommand_findThrough stops trains via dest =
     (let byTrain = groupByTrain stops;
          res = List.map_filter (ThroughCommand_throughOf trains via dest) byTrain in
      sortBy (\<lambda>a b. localeCompare (StringOf (depart_via_time a)) (StringOf (depart_via_time b))) res)"

definition ThroughCommand_legAOf ::
  "(string \<Rightarrow> TrainMeta option) \<Rightarrow> string \<Rightarrow> string \<times> AnyCsv list \<Rightarrow> LegA option" where
  "ThroughCommand_legAOf trains via g =
     (let tid = fst g;
          arr = sortStops (snd g);
          idxVia = findIndex (\<lambda>r. stationLower r = toLowerCase via) arr;
          idxTA = findIndex (\<lambda>r. stationLower r = ''tanah abang'') arr;
          meta = trains tid in
      if idxVia \<ge> 0 \<and> idxTA > idxVia then
        (let dv = (arr ! nat idxVia) ''time_est'';
             ata = (arr ! nat idxTA) ''time_est'';
             dvMin = minuteOf (arr ! nat idxVia);
             atMin = minuteOf (arr ! nat idxTA) in
         if truthy dv \<and> truthy ata \<and> dvMin \<noteq> None \<and> atMin \<noteq> None then
           Some \<lparr>a_trainId = tid, departVia = the dv, arriveTA = the ata,
                 departViaMin = the dvMin, arriveTAMin = the atMin, a_meta = legMeta meta\<rparr>
         else None)
      else None)"

definition ThroughCommand_legBOf ::
  "(string \<Rightarrow> TrainMeta option) \<Rightarrow> string \<Rightarrow> string \<times> AnyCsv list \<Rightarrow> LegB option" where
  "ThroughCommand_legBOf trains dest g =
     (let tid = fst g;
          arr = sortStops (snd g);
          idxTA = findIndex (\<lambda>r. stationLower r = ''tanah abang'') arr;
          idxDest = findIndex (\<lambda>r. stationLower r = toLowerCase dest) arr;
          meta = trains tid in
      if idxTA \<ge> 0 \<and> idxDest > idxTA then
        (let dt = (arr ! nat idxTA) ''time_est'';
             ad = (arr ! nat idxDest) ''time_est'';
             dtMin = minuteOf (arr ! nat idxTA);
             adMin = minuteOf (arr ! nat idxDest) in
         if truthy dt \<and> dtMin \<noteq> None then
           Some \<lparr>b_trainId = tid, departTA = the dt, arriveDest = ad,
                 departTAMin = the dtMin, arriveDestMin = adMin, b_meta = legMeta meta\<rparr>
         else None)
      else None)"

definition ThroughCommand_buildTransferPairs ::
  "AnyCsv list \<Rightarrow> AnyCsv list \<Rightarrow> (string \<Rightarrow> TrainMeta option) \<Rightarrow> string \<Rightarrow> string \<Rightarrow> real option
     \<Rightarrow> PairResult list" where
  "ThroughCommand_buildTransferPairs stopsPre stopsPost trains via dest maxWaitMin =
     (let legAs = List.map_filter (ThroughCommand_legAOf trains via) (groupByTrain stopsPre);
          legBs = sortBy (\<lambda>a b. departTAMin a - departTAMin b)
                    (List.map_filter (ThroughCommand_legBOf trains dest) (groupByTrain stopsPost));
          pairs = List.map_filter (matchLeg maxWaitMin legBs) legAs in
      sortBy pairOrder pairs)"

section \<open>analyze.ts: legs, segment statistics and the audit\<close>


text \<open>
  \<^verbatim>\<open>toNum\<close>: \<^verbatim>\<open>null\<close> for a missing value and for one that \<^verbatim>\<open>Number\<close> does not turn into a
  finite number (in this model: \<^verbatim>\<open>NaN\<close>).
\<close>

definition toNum :: "string option \<Rightarrow> real option" where
  "toNum v = (case v of None \<Rightarrow> None
              | Some s \<Rightarrow> (case Number (Some s) of None \<Rightarrow> None | Some n \<Rightarrow> Some n))"






subsection \<open>Segment statistics (the mode of one directory)\<close>












subsection \<open>The audit: outliers of a segment\<close>








section \<open>Notions of the specification\<close>


text \<open>A wait is within the bound when there is no bound or the wait does not exceed it.\<close>

definition withinWait :: "real option \<Rightarrow> real \<Rightarrow> bool" where
  "withinWait maxWaitMin wait = (case maxWaitMin of None \<Rightarrow> True | Some m \<Rightarrow> wait \<le> m)"




section \<open>Example data\<close>

text \<open>Train 101 runs from Palmerah through Tanah Abang to Sudirman; train 202 ends at Tanah
  Abang. The rows of the two trains are interleaved in the file.\<close>

definition stop101a :: AnyCsv where
  "stop101a c =
     map_of [(''train_id'', ''101''), (''stop_index'', ''0''),
             (''station_name'', ''Palmerah''), (''time_est'', ''07:00:00'')] c"

definition stop101b :: AnyCsv where
  "stop101b c =
     map_of [(''train_id'', ''101''), (''stop_index'', ''1''),
             (''station_name'', ''Tanah Abang''), (''time_est'', ''07:20:00'')] c"

definition stop101c :: AnyCsv where
  "stop101c c =
     map_of [(''train_id'', ''101''), (''stop_index'', ''2''),
             (''station_name'', ''Sudirman''), (''time_est'', ''07:40:00'')] c"

definition stop202a :: AnyCsv where
  "stop202a c =
     map_of [(''train_id'', ''202''), (''stop_index'', ''0''),
             (''station_name'', ''Palmerah''), (''time_est'', ''07:05:00'')] c"

definition stop202b :: AnyCsv where
  "stop202b c =
     map_of [(''train_id'', ''202''), (''stop_index'', ''1''),
             (''station_name'', ''Tanah Abang''), (''time_est'', ''07:25:00'')] c"

definition throughStops :: "AnyCsv list" where
  "throughStops = [stop101a, stop202a, stop101b, stop202b, stop101c]"

text \<open>An arrival at the hub at 07:20 with departures at 07:10 and 07:45, and an arrival at
  23:50 with one departure at 00:10.\<close>

definition stopA1a :: AnyCsv where
  "stopA1a c =
     map_of [(''train_id'', ''A1''), (''stop_index'', ''0''), (''station_name'', ''Palmerah''),
             (''time_est'', ''07:00:00''), (''time_est_min'', ''420'')] c"

definition stopA1b :: AnyCsv where
  "stopA1b c =
     map_of [(''train_id'', ''A1''), (''stop_index'', ''1''),
             (''station_name'', ''Tanah Abang''), (''time_est'', ''07:20:00''),
             (''time_est_min'', ''440'')] c"

definition stopB1a :: AnyCsv where
  "stopB1a c =
     map_of [(''train_id'', ''B1''), (''stop_index'', ''0''),
             (''station_name'', ''Tanah Abang''), (''time_est'', ''07:10:00''),
             (''time_est_min'', ''430'')] c"

definition stopB1b :: AnyCsv where
  "stopB1b c =
     map_of [(''train_id'', ''B1''), (''stop_index'', ''1''),
             (''station_name'', ''Rangkasbitung''), (''time_est'', ''08:55:00''),
             (''time_est_min'', ''535'')] c"

definition stopB2a :: AnyCsv where
  "stopB2a c =
     map_of [(''train_id'', ''B2''), (''stop_index'', ''0''),
             (''station_name'', ''Tanah Abang''), (''time_est'', ''07:45:00''),
             (''time_est_min'', ''465'')] c"

definition stopB2b :: AnyCsv where
  "stopB2b c =
     map_of [(''train_id'', ''B2''), (''stop_index'', ''1''),
             (''station_name'', ''Rangkasbitung''), (''time_est'', ''09:30:00''),
             (''time_est_min'', ''570'')] c"

definition dayPre :: "AnyCsv list" where
  "dayPre = [stopA1a, stopA1b]"

definition dayPost :: "AnyCsv list" where
  "dayPost = [stopB2a, stopB2b, stopB1a, stopB1b]"

definition stopN1a :: AnyCsv where
  "stopN1a c =
     map_of [(''train_id'', ''N1''), (''stop_index'', ''0''), (''station_name'', ''Palmerah''),
             (''time_est'', ''23:40:00''), (''time_est_min'', ''1420'')] c"

definition stopN1b :: AnyCsv where
  "stopN1b c =
     map_of [(''train_id'', ''N1''), (''stop_index'', ''1''),
             (''station_name'', ''Tanah Abang''), (''time_est'', ''23:50:00''),
             (''time_est_min'', ''1430'')] c"

definition stopM1a :: AnyCsv where
  "stopM1a c =
     map_of [(''train_id'', ''M1''), (''stop_index'', ''0''),
             (''station_name'', ''Tanah Abang''), (''time_est'', ''00:10:00''),
             (''time_est_min'', ''10'')] c"

definition stopM1b :: AnyCsv where
  "stopM1b c =
     map_of [(''train_id'', ''M1''), (''stop_index'', ''1''),
             (''station_name'', ''Rangkasbitung''), (''time_est'', ''01:40:00''),
             (''time_est_min'', ''100'')] c"

definition nightPre :: "AnyCsv list" where
  "nightPre = [stopN1a, stopN1b]"

definition nightPost :: "AnyCsv list" where
  "nightPost = [stopM1a, stopM1b]"



















section \<open>Facts about the host language\<close>









text \<open>A sort by the difference of a numeric key is the stable sort by that key.\<close>

lemma insortBy_key: "insortBy (\<lambda>a b. f a - f b) x xs = insort_key f x xs"
  by (induction xs) auto

lemma sortBy_key: "sortBy (\<lambda>a b. f a - f b) xs = sort_key f xs"
  by (induction xs) (simp_all add: sortBy_def insortBy_key)

lemma set_insortBy: "set (insortBy cmp x xs) = insert x (set xs)"
  by (induction xs) auto

lemma set_sortBy: "set (sortBy cmp xs) = set xs"
  by (induction xs) (simp_all add: sortBy_def set_insortBy)

lemma length_insortBy: "length (insortBy cmp x xs) = Suc (length xs)"
  by (induction xs) auto

lemma length_sortBy: "length (sortBy cmp xs) = length xs"
  by (induction xs) (simp_all add: sortBy_def length_insortBy)

text \<open>\<^verbatim>\<open>findIndex\<close> returns \<open>-1\<close> or the index of the first element that satisfies the
  predicate.\<close>

lemma findIndex_ge: "- 1 \<le> findIndex p xs"
  by (induction xs) (auto simp: Let_def)

lemma findIndex_neg_iff: "findIndex p xs < 0 \<longleftrightarrow> (\<forall>x \<in> set xs. \<not> p x)"
  using findIndex_ge [of p] by (induction xs) (auto simp: Let_def)


lemma findIndex_first:
  "0 \<le> findIndex p xs \<Longrightarrow> i < nat (findIndex p xs) \<Longrightarrow> \<not> p (xs ! i)"
proof (induction xs arbitrary: i)
  case Nil
  then show ?case by simp
next
  case (Cons x xs)
  show ?case
  proof (cases "p x")
    case True
    with Cons.prems show ?thesis by simp
  next
    case False
    with Cons.prems have ge: "0 \<le> findIndex p xs"
      by (auto simp: Let_def split: if_splits)
    have eq: "findIndex p (x # xs) = findIndex p xs + 1"
      using False ge by (simp add: Let_def)
    show ?thesis
    proof (cases i)
      case 0
      then show ?thesis using False by simp
    next
      case (Suc j)
      then have "j < nat (findIndex p xs)" using Cons.prems(2) eq ge by simp
      then show ?thesis using Cons.IH [OF ge] Suc by simp
    qed
  qed
qed

lemma set_map_filter: "set (List.map_filter f xs) = {y. \<exists>x \<in> set xs. f x = Some y}"
proof -
  have "set (List.map_filter f xs) = (the \<circ> f) ` {x \<in> set xs. f x \<noteq> None}"
    by (simp add: List.map_filter_def)
  also have "\<dots> = {y. \<exists>x \<in> set xs. f x = Some y}"
    by force
  finally show ?thesis .
qed

section \<open>Facts about through.ts\<close>







text \<open>The binary search on the sorted outbound legs returns the first index whose departure
  is not before the arrival.\<close>

lemma sorted_outboundLegs: "sorted (map departTAMin (outboundLegs stopsPost trains dest))"
  by (simp add: outboundLegs_def sortBy_key)

lemma lowerBound_correct:
  "sorted (map departTAMin legBs) \<Longrightarrow> lo \<le> hi \<Longrightarrow> hi \<le> length legBs \<Longrightarrow>
   (\<forall>i < lo. departTAMin (legBs ! i) < x) \<Longrightarrow>
   (\<forall>i. hi \<le> i \<and> i < length legBs \<longrightarrow> x \<le> departTAMin (legBs ! i)) \<Longrightarrow>
   lowerBound legBs x lo hi \<le> length legBs \<and>
   (\<forall>i < lowerBound legBs x lo hi. departTAMin (legBs ! i) < x) \<and>
   (\<forall>i. lowerBound legBs x lo hi \<le> i \<and> i < length legBs \<longrightarrow> x \<le> departTAMin (legBs ! i))"
proof (induction legBs x lo hi rule: lowerBound.induct)
  case (1 legBs x lo hi)
  show ?case
  proof (cases "lo < hi")
    case False
    then have "lowerBound legBs x lo hi = lo" by (subst lowerBound.simps) simp
    moreover have "lo = hi" using False "1.prems"(2) by simp
    ultimately show ?thesis using "1.prems" by auto
  next
    case True
    define mid where "mid = (lo + hi) div 2"
    have mid: "lo \<le> mid" "mid < hi" using True by (auto simp: mid_def)
    have midn: "mid < length legBs" using mid "1.prems"(3) by simp
    have mono: "\<And>i j. i \<le> j \<Longrightarrow> j < length legBs \<Longrightarrow> departTAMin (legBs ! i) \<le> departTAMin (legBs ! j)"
      using "1.prems"(1) by (simp add: sorted_iff_nth_mono)
    show ?thesis
    proof (cases "departTAMin (legBs ! mid) < x")
      case lt: True
      have eq: "lowerBound legBs x lo hi = lowerBound legBs x (mid + 1) hi"
        using True lt by (subst lowerBound.simps) (simp add: mid_def Let_def)
      have below: "\<forall>i < mid + 1. departTAMin (legBs ! i) < x"
      proof (intro allI impI)
        fix i assume "i < mid + 1"
        then have "i \<le> mid" by simp
        then have "departTAMin (legBs ! i) \<le> departTAMin (legBs ! mid)" using mono midn by blast
        then show "departTAMin (legBs ! i) < x" using lt by simp
      qed
      have "mid + 1 \<le> hi" using mid by simp
      from "1.IH"(1) [OF True mid_def lt "1.prems"(1) this "1.prems"(3) below "1.prems"(5)]
      show ?thesis unfolding eq .
    next
      case ge: False
      have eq: "lowerBound legBs x lo hi = lowerBound legBs x lo mid"
        using True ge by (subst lowerBound.simps) (simp add: mid_def Let_def)
      have above: "\<forall>i. mid \<le> i \<and> i < length legBs \<longrightarrow> x \<le> departTAMin (legBs ! i)"
      proof (intro allI impI)
        fix i assume "mid \<le> i \<and> i < length legBs"
        then have "departTAMin (legBs ! mid) \<le> departTAMin (legBs ! i)" using mono by blast
        then show "x \<le> departTAMin (legBs ! i)" using ge by simp
      qed
      have "mid \<le> length legBs" using midn by simp
      from "1.IH"(2) [OF True mid_def ge "1.prems"(1) mid(1) this "1.prems"(4) above]
      show ?thesis unfolding eq .
    qed
  qed
qed

lemma lowerBound_first:
  assumes "sorted (map departTAMin legBs)"
  shows "lowerBound legBs x 0 (length legBs) \<le> length legBs \<and>
   (\<forall>i < lowerBound legBs x 0 (length legBs). departTAMin (legBs ! i) < x) \<and>
   (\<forall>i. lowerBound legBs x 0 (length legBs) \<le> i \<and> i < length legBs \<longrightarrow> x \<le> departTAMin (legBs ! i))"
  using lowerBound_correct [OF assms, of 0 "length legBs" x] by simp

lemma set_candidatesAt:
  "set (candidatesAt legBs lo) = {i. i < length legBs \<and> (i = lo \<or> i = lo + 1 \<or> i = 0)}"
  by (auto simp: candidatesAt_def addCand_def)

text \<open>What the loop over the candidates computes.\<close>

lemma pickBest_None:
  "pickBest mw arrive legBs cands best = None \<longleftrightarrow>
     best = None \<and> (\<forall>i \<in> set cands. \<not> withinWait mw (waitDiffMin arrive (departTAMin (legBs ! i))))"
  by (induction cands arbitrary: best) (auto simp: Let_def withinWait_def split: option.splits)

lemma pickBest_Some:
  "pickBest mw arrive legBs cands best = Some (j, w) \<Longrightarrow>
   (best = Some (j, w) \<or>
      (j \<in> set cands \<and> w = waitDiffMin arrive (departTAMin (legBs ! j)) \<and> withinWait mw w)) \<and>
   (\<forall>i \<in> set cands. withinWait mw (waitDiffMin arrive (departTAMin (legBs ! i)))
        \<longrightarrow> w \<le> waitDiffMin arrive (departTAMin (legBs ! i))) \<and>
   (\<forall>bw. best = Some bw \<longrightarrow> w \<le> snd bw)"
proof (induction cands arbitrary: best)
  case Nil
  then show ?case by simp
next
  case (Cons i cands)
  let ?wait = "waitDiffMin arrive (departTAMin (legBs ! i))"
  show ?case
  proof (cases "withinWait mw ?wait")
    case False
    then have "pickBest mw arrive legBs (i # cands) best = pickBest mw arrive legBs cands best"
      by (auto simp: withinWait_def Let_def split: option.splits)
    with Cons.prems Cons.IH [of best] False show ?thesis by auto
  next
    case True
    show ?thesis
    proof (cases "case best of None \<Rightarrow> True | Some bw \<Rightarrow> ?wait < snd bw")
      case better: True
      then have "pickBest mw arrive legBs (i # cands) best = pickBest mw arrive legBs cands (Some (i, ?wait))"
        using True by (auto simp: withinWait_def Let_def split: option.splits)
      with Cons.prems Cons.IH [of "Some (i, ?wait)"] True better show ?thesis
        by (auto split: option.splits)
    next
      case worse: False
      then have "pickBest mw arrive legBs (i # cands) best = pickBest mw arrive legBs cands best"
        using True by (auto simp: withinWait_def Let_def split: option.splits)
      with Cons.prems Cons.IH [of best] True worse show ?thesis
        by (auto split: option.splits)
    qed
  qed
qed

text \<open>The wait, and the wait as a remainder modulo 1440.\<close>

lemma waitDiffMin_cases:
  "waitDiffMin arrive depart = (if depart < arrive then depart - arrive + 1440 else depart - arrive)"
  by (simp add: waitDiffMin_def Let_def)

lemma waitDiffMin_nonneg:
  "0 \<le> depart \<Longrightarrow> arrive < 1440 \<Longrightarrow> 0 \<le> waitDiffMin arrive depart"
  by (simp add: waitDiffMin_cases)

lemma waitDiffMin_mod:
  assumes "0 \<le> arrive" "arrive < 1440" "0 \<le> depart" "depart < 1440"
  shows "waitDiffMin arrive depart = (depart - arrive) - 1440 * real_of_int \<lfloor>(depart - arrive) / 1440\<rfloor>"
proof (cases "depart < arrive")
  case True
  have "\<lfloor>(depart - arrive) / 1440\<rfloor> = - 1"
    using assms True by (intro floor_unique) auto
  then show ?thesis using True by (simp add: waitDiffMin_cases)
next
  case False
  have "\<lfloor>(depart - arrive) / 1440\<rfloor> = 0"
    using assms False by (intro floor_unique) auto
  then show ?thesis using False by (simp add: waitDiffMin_cases)
qed

text \<open>The three candidates hold a leg of least wait among all outbound legs.\<close>

lemma candidates_hold_minimum:
  assumes srt: "sorted (map departTAMin legBs)"
    and rng: "\<forall>b \<in> set legBs. 0 \<le> departTAMin b \<and> departTAMin b < 1440"
    and arr: "0 \<le> arrive" "arrive < 1440"
    and ne: "legBs \<noteq> []"
  shows "\<exists>c \<in> set (candidatesAt legBs (lowerBound legBs arrive 0 (length legBs))).
           \<forall>i < length legBs. waitDiffMin arrive (departTAMin (legBs ! c))
                                \<le> waitDiffMin arrive (departTAMin (legBs ! i))"
proof -
  define lo where "lo = lowerBound legBs arrive 0 (length legBs)"
  have lb: "lo \<le> length legBs"
    "\<And>i. i < lo \<Longrightarrow> departTAMin (legBs ! i) < arrive"
    "\<And>i. lo \<le> i \<Longrightarrow> i < length legBs \<Longrightarrow> arrive \<le> departTAMin (legBs ! i)"
    using lowerBound_first [OF srt, of arrive] by (auto simp: lo_def)
  have mono: "\<And>i j. i \<le> j \<Longrightarrow> j < length legBs \<Longrightarrow> departTAMin (legBs ! i) \<le> departTAMin (legBs ! j)"
    using srt by (simp add: sorted_iff_nth_mono)
  have bounds: "\<And>i. i < length legBs \<Longrightarrow> 0 \<le> departTAMin (legBs ! i) \<and> departTAMin (legBs ! i) < 1440"
    using rng by simp
  have pos: "0 < length legBs" using ne by simp
  show ?thesis
  proof (cases "lo < length legBs")
    case True
    have "lo \<in> set (candidatesAt legBs lo)" using True by (simp add: set_candidatesAt)
    moreover have "\<forall>i < length legBs. waitDiffMin arrive (departTAMin (legBs ! lo))
                                \<le> waitDiffMin arrive (departTAMin (legBs ! i))"
    proof (intro allI impI)
      fix i assume i: "i < length legBs"
      have lo_ge: "arrive \<le> departTAMin (legBs ! lo)" using lb(3) True by simp
      show "waitDiffMin arrive (departTAMin (legBs ! lo)) \<le> waitDiffMin arrive (departTAMin (legBs ! i))"
      proof (cases "i < lo")
        case True
        then have "departTAMin (legBs ! i) < arrive" using lb(2) by simp
        moreover have "0 \<le> departTAMin (legBs ! i)" using bounds i by simp
        moreover have "departTAMin (legBs ! lo) < 1440" using bounds \<open>lo < length legBs\<close> by simp
        ultimately show ?thesis using lo_ge by (simp add: waitDiffMin_cases)
      next
        case False
        then have "departTAMin (legBs ! lo) \<le> departTAMin (legBs ! i)" using mono i by simp
        then show ?thesis using lo_ge by (simp add: waitDiffMin_cases)
      qed
    qed
    ultimately show ?thesis unfolding lo_def by blast
  next
    case False
    then have all_lt: "\<And>i. i < length legBs \<Longrightarrow> departTAMin (legBs ! i) < arrive"
      using lb(1,2) by simp
    have "0 \<in> set (candidatesAt legBs lo)" using pos by (simp add: set_candidatesAt)
    moreover have "\<forall>i < length legBs. waitDiffMin arrive (departTAMin (legBs ! 0))
                                \<le> waitDiffMin arrive (departTAMin (legBs ! i))"
    proof (intro allI impI)
      fix i assume i: "i < length legBs"
      have "departTAMin (legBs ! 0) \<le> departTAMin (legBs ! i)" using mono i by simp
      then show "waitDiffMin arrive (departTAMin (legBs ! 0)) \<le> waitDiffMin arrive (departTAMin (legBs ! i))"
        using all_lt [OF i] all_lt [OF pos] by (simp add: waitDiffMin_cases)
    qed
    ultimately show ?thesis unfolding lo_def by blast
  qed
qed

text \<open>The pair pushed for an inbound leg.\<close>

lemma matchLeg_None:
  assumes srt: "sorted (map departTAMin legBs)"
    and rng: "\<forall>b \<in> set legBs. 0 \<le> departTAMin b \<and> departTAMin b < 1440"
    and arr: "0 \<le> arriveTAMin a" "arriveTAMin a < 1440"
  shows "matchLeg mw legBs a = None \<longleftrightarrow>
     \<not> (\<exists>b \<in> set legBs. withinWait mw (waitDiffMin (arriveTAMin a) (departTAMin b)))"
proof -
  let ?lo = "lowerBound legBs (arriveTAMin a) 0 (length legBs)"
  let ?w = "\<lambda>i. waitDiffMin (arriveTAMin a) (departTAMin (legBs ! i))"
  have none: "matchLeg mw legBs a = None \<longleftrightarrow> (\<forall>i \<in> set (candidatesAt legBs ?lo). \<not> withinWait mw (?w i))"
  proof -
    have "matchLeg mw legBs a = None \<longleftrightarrow>
            pickBest mw (arriveTAMin a) legBs (candidatesAt legBs ?lo) None = None"
      by (simp add: matchLeg_def Let_def split: option.splits)
    then show ?thesis by (simp add: pickBest_None)
  qed
  show ?thesis
  proof
    assume n: "matchLeg mw legBs a = None"
    show "\<not> (\<exists>b \<in> set legBs. withinWait mw (waitDiffMin (arriveTAMin a) (departTAMin b)))"
    proof
      assume "\<exists>b \<in> set legBs. withinWait mw (waitDiffMin (arriveTAMin a) (departTAMin b))"
      then obtain i where i: "i < length legBs" "withinWait mw (?w i)"
        by (auto simp: in_set_conv_nth)
      then have "legBs \<noteq> []" by auto
      from candidates_hold_minimum [OF srt rng arr this]
      obtain c where c: "c \<in> set (candidatesAt legBs ?lo)" "\<forall>i < length legBs. ?w c \<le> ?w i"
        by blast
      then have "?w c \<le> ?w i" using i by simp
      then have "withinWait mw (?w c)" using i(2) by (auto simp: withinWait_def split: option.splits)
      then show False using n c(1) none by blast
    qed
  next
    assume "\<not> (\<exists>b \<in> set legBs. withinWait mw (waitDiffMin (arriveTAMin a) (departTAMin b)))"
    then show "matchLeg mw legBs a = None"
      unfolding none by (auto simp: set_candidatesAt)
  qed
qed

lemma matchLeg_Some:
  assumes m: "matchLeg mw legBs a = Some p"
  shows "\<exists>j < length legBs.
           from_train_id p = a_trainId a \<and> pair_depart_via_time p = departVia a \<and>
           arrive_ta_time p = arriveTA a \<and> meta_from p = a_meta a \<and>
           to_train_id p = b_trainId (legBs ! j) \<and> depart_ta_time p = departTA (legBs ! j) \<and>
           arrive_dest_time p = arriveDest (legBs ! j) \<and> meta_to p = b_meta (legBs ! j) \<and>
           wait_min p = waitDiffMin (arriveTAMin a) (departTAMin (legBs ! j)) \<and>
           withinWait mw (wait_min p) \<and>
           j \<in> set (candidatesAt legBs (lowerBound legBs (arriveTAMin a) 0 (length legBs))) \<and>
           (\<forall>i \<in> set (candidatesAt legBs (lowerBound legBs (arriveTAMin a) 0 (length legBs))).
               withinWait mw (waitDiffMin (arriveTAMin a) (departTAMin (legBs ! i)))
               \<longrightarrow> wait_min p \<le> waitDiffMin (arriveTAMin a) (departTAMin (legBs ! i)))"
proof -
  let ?lo = "lowerBound legBs (arriveTAMin a) 0 (length legBs)"
  from m obtain j w where
    pb: "pickBest mw (arriveTAMin a) legBs (candidatesAt legBs ?lo) None = Some (j, w)"
    by (auto simp: matchLeg_def Let_def split: option.splits)
  with m have p: "p = \<lparr>from_train_id = a_trainId a,
                to_train_id = b_trainId (legBs ! j),
                pair_depart_via_time = departVia a,
                arrive_ta_time = arriveTA a,
                depart_ta_time = departTA (legBs ! j),
                arrive_dest_time = arriveDest (legBs ! j),
                wait_min = w,
                meta_from = a_meta a,
                meta_to = b_meta (legBs ! j)\<rparr>"
    by (simp add: matchLeg_def Let_def)
  from pickBest_Some [OF pb]
  have j: "j \<in> set (candidatesAt legBs ?lo)"
    and w: "w = waitDiffMin (arriveTAMin a) (departTAMin (legBs ! j))" "withinWait mw w"
    and least: "\<forall>i \<in> set (candidatesAt legBs ?lo).
        withinWait mw (waitDiffMin (arriveTAMin a) (departTAMin (legBs ! i)))
        \<longrightarrow> w \<le> waitDiffMin (arriveTAMin a) (departTAMin (legBs ! i))"
    by auto
  have "j < length legBs" using j by (simp add: set_candidatesAt)
  then show ?thesis using p j w least by (intro exI [of _ j]) simp
qed

lemma matchLeg_least:
  assumes srt: "sorted (map departTAMin legBs)"
    and rng: "\<forall>b \<in> set legBs. 0 \<le> departTAMin b \<and> departTAMin b < 1440"
    and arr: "0 \<le> arriveTAMin a" "arriveTAMin a < 1440"
    and m: "matchLeg mw legBs a = Some p"
  shows "\<forall>b \<in> set legBs. wait_min p \<le> waitDiffMin (arriveTAMin a) (departTAMin b)"
proof -
  let ?lo = "lowerBound legBs (arriveTAMin a) 0 (length legBs)"
  let ?w = "\<lambda>i. waitDiffMin (arriveTAMin a) (departTAMin (legBs ! i))"
  from matchLeg_Some [OF m] obtain j where
    j: "j < length legBs" "wait_min p = ?w j" "withinWait mw (wait_min p)"
    and least: "\<forall>i \<in> set (candidatesAt legBs ?lo). withinWait mw (?w i) \<longrightarrow> wait_min p \<le> ?w i"
    by blast
  have "legBs \<noteq> []" using j(1) by auto
  from candidates_hold_minimum [OF srt rng arr this]
  obtain c where c: "c \<in> set (candidatesAt legBs ?lo)" "\<forall>i < length legBs. ?w c \<le> ?w i"
    by blast
  have "?w c \<le> ?w j" using c(2) j(1) by simp
  then have "withinWait mw (?w c)" using j(2,3) by (auto simp: withinWait_def split: option.splits)
  then have "wait_min p \<le> ?w c" using least c(1) by simp
  then have "\<forall>i < length legBs. wait_min p \<le> ?w i" using c(2) by force
  then show ?thesis by (auto simp: in_set_conv_nth)
qed

lemma buildTransferPairs_set:
  "set (buildTransferPairs stopsPre stopsPost trains via dest mw) =
     {p. \<exists>a \<in> set (inboundLegs stopsPre trains via).
            matchLeg mw (outboundLegs stopsPost trains dest) a = Some p}"
  by (simp add: buildTransferPairs_def Let_def set_sortBy set_map_filter)

lemma length_map_filter: "length (List.map_filter f xs) = length (filter (\<lambda>x. f x \<noteq> None) xs)"
  by (simp add: List.map_filter_def)

lemma buildTransferPairs_length:
  "length (buildTransferPairs stopsPre stopsPost trains via dest mw) =
     length (filter (\<lambda>a. matchLeg mw (outboundLegs stopsPost trains dest) a \<noteq> None)
               (inboundLegs stopsPre trains via))"
  by (simp add: buildTransferPairs_def Let_def length_sortBy length_map_filter)










section \<open>Facts about the command module\<close>

lemma hub_lower: "toLowerCase ''tanah abang'' = ''tanah abang''"
  by (simp add: toLowerCase_def lowerChar_def)

lemma ThroughCommand_throughOf_eq: "ThroughCommand_throughOf = throughOf"
  by (intro ext) (simp only: ThroughCommand_throughOf_def throughOf_def hub_lower)

lemma ThroughCommand_legAOf_eq: "ThroughCommand_legAOf = legAOf"
  by (intro ext) (simp only: ThroughCommand_legAOf_def legAOf_def hub_lower)

lemma ThroughCommand_legBOf_eq: "ThroughCommand_legBOf = legBOf"
  by (intro ext) (simp only: ThroughCommand_legBOf_def legBOf_def hub_lower)

section \<open>Facts about analyze.ts\<close>











subsection \<open>The outliers of the audit\<close>










subsection \<open>The statistics of the segments\<close>
















section \<open>Evaluation of the examples\<close>

text \<open>The definitions that evaluate a conversion to a number, a lower-casing, and the columns
  of a stop.\<close>

lemmas number_eval =
  StringToNumber_def trim_def isWhite_def unsignedDecimal_def isDigit_def digitsVal_def
  Number_def numOr_def

lemmas lower_eval = toLowerCase_def lowerChar_def char_of_def bit_Suc_0_iff

lemmas stop_eval =
  trainIdOf_def stopIndex_def stationLower_def minuteOf_def hmsToMin_def orEmpty_def toNum_def

lemma lower_names:
  "toLowerCase ''Palmerah'' = ''palmerah'' \<and>
   toLowerCase ''tanah abang'' = ''tanah abang'' \<and>
   toLowerCase ''Sudirman'' = ''sudirman'' \<and>
   toLowerCase ''Rangkasbitung'' = ''rangkasbitung''"
  by (simp add: lower_eval)

lemma stop101a_fields:
  "trainIdOf stop101a = ''101'' \<and>
   Number (stop101a ''stop_index'') = Some 0 \<and>
   stopIndex stop101a = 0 \<and>
   stationLower stop101a = ''palmerah'' \<and>
   stop101a ''time_est'' = Some ''07:00:00''"
  by (simp add: stop101a_def number_eval lower_eval stop_eval)

lemma stop101b_fields:
  "trainIdOf stop101b = ''101'' \<and>
   Number (stop101b ''stop_index'') = Some 1 \<and>
   stopIndex stop101b = 1 \<and>
   stationLower stop101b = ''tanah abang'' \<and>
   stop101b ''time_est'' = Some ''07:20:00''"
  by (simp add: stop101b_def number_eval lower_eval stop_eval)

lemma stop101c_fields:
  "trainIdOf stop101c = ''101'' \<and>
   Number (stop101c ''stop_index'') = Some 2 \<and>
   stopIndex stop101c = 2 \<and>
   stationLower stop101c = ''sudirman'' \<and>
   stop101c ''time_est'' = Some ''07:40:00''"
  by (simp add: stop101c_def number_eval lower_eval stop_eval)

lemma stop202a_fields:
  "trainIdOf stop202a = ''202'' \<and>
   Number (stop202a ''stop_index'') = Some 0 \<and>
   stopIndex stop202a = 0 \<and>
   stationLower stop202a = ''palmerah'' \<and>
   stop202a ''time_est'' = Some ''07:05:00''"
  by (simp add: stop202a_def number_eval lower_eval stop_eval)

lemma stop202b_fields:
  "trainIdOf stop202b = ''202'' \<and>
   Number (stop202b ''stop_index'') = Some 1 \<and>
   stopIndex stop202b = 1 \<and>
   stationLower stop202b = ''tanah abang'' \<and>
   stop202b ''time_est'' = Some ''07:25:00''"
  by (simp add: stop202b_def number_eval lower_eval stop_eval)

lemma stopA1a_fields:
  "trainIdOf stopA1a = ''A1'' \<and>
   Number (stopA1a ''stop_index'') = Some 0 \<and>
   stopIndex stopA1a = 0 \<and>
   stationLower stopA1a = ''palmerah'' \<and>
   stopA1a ''time_est'' = Some ''07:00:00'' \<and>
   toNum (stopA1a ''time_est_min'') = Some 420 \<and>
   minuteOf stopA1a = Some 420"
  by (simp add: stopA1a_def number_eval lower_eval stop_eval)

lemma stopA1b_fields:
  "trainIdOf stopA1b = ''A1'' \<and>
   Number (stopA1b ''stop_index'') = Some 1 \<and>
   stopIndex stopA1b = 1 \<and>
   stationLower stopA1b = ''tanah abang'' \<and>
   stopA1b ''time_est'' = Some ''07:20:00'' \<and>
   toNum (stopA1b ''time_est_min'') = Some 440 \<and>
   minuteOf stopA1b = Some 440"
  by (simp add: stopA1b_def number_eval lower_eval stop_eval)

lemma stopB1a_fields:
  "trainIdOf stopB1a = ''B1'' \<and>
   Number (stopB1a ''stop_index'') = Some 0 \<and>
   stopIndex stopB1a = 0 \<and>
   stationLower stopB1a = ''tanah abang'' \<and>
   stopB1a ''time_est'' = Some ''07:10:00'' \<and>
   toNum (stopB1a ''time_est_min'') = Some 430 \<and>
   minuteOf stopB1a = Some 430"
  by (simp add: stopB1a_def number_eval lower_eval stop_eval)

lemma stopB1b_fields:
  "trainIdOf stopB1b = ''B1'' \<and>
   Number (stopB1b ''stop_index'') = Some 1 \<and>
   stopIndex stopB1b = 1 \<and>
   stationLower stopB1b = ''rangkasbitung'' \<and>
   stopB1b ''time_est'' = Some ''08:55:00'' \<and>
   toNum (stopB1b ''time_est_min'') = Some 535 \<and>
   minuteOf stopB1b = Some 535"
  by (simp add: stopB1b_def number_eval lower_eval stop_eval)

lemma stopB2a_fields:
  "trainIdOf stopB2a = ''B2'' \<and>
   Number (stopB2a ''stop_index'') = Some 0 \<and>
   stopIndex stopB2a = 0 \<and>
   stationLower stopB2a = ''tanah abang'' \<and>
   stopB2a ''time_est'' = Some ''07:45:00'' \<and>
   toNum (stopB2a ''time_est_min'') = Some 465 \<and>
   minuteOf stopB2a = Some 465"
  by (simp add: stopB2a_def number_eval lower_eval stop_eval)

lemma stopB2b_fields:
  "trainIdOf stopB2b = ''B2'' \<and>
   Number (stopB2b ''stop_index'') = Some 1 \<and>
   stopIndex stopB2b = 1 \<and>
   stationLower stopB2b = ''rangkasbitung'' \<and>
   stopB2b ''time_est'' = Some ''09:30:00'' \<and>
   toNum (stopB2b ''time_est_min'') = Some 570 \<and>
   minuteOf stopB2b = Some 570"
  by (simp add: stopB2b_def number_eval lower_eval stop_eval)

lemma stopN1a_fields:
  "trainIdOf stopN1a = ''N1'' \<and>
   Number (stopN1a ''stop_index'') = Some 0 \<and>
   stopIndex stopN1a = 0 \<and>
   stationLower stopN1a = ''palmerah'' \<and>
   stopN1a ''time_est'' = Some ''23:40:00'' \<and>
   toNum (stopN1a ''time_est_min'') = Some 1420 \<and>
   minuteOf stopN1a = Some 1420"
  by (simp add: stopN1a_def number_eval lower_eval stop_eval)

lemma stopN1b_fields:
  "trainIdOf stopN1b = ''N1'' \<and>
   Number (stopN1b ''stop_index'') = Some 1 \<and>
   stopIndex stopN1b = 1 \<and>
   stationLower stopN1b = ''tanah abang'' \<and>
   stopN1b ''time_est'' = Some ''23:50:00'' \<and>
   toNum (stopN1b ''time_est_min'') = Some 1430 \<and>
   minuteOf stopN1b = Some 1430"
  by (simp add: stopN1b_def number_eval lower_eval stop_eval)

lemma stopM1a_fields:
  "trainIdOf stopM1a = ''M1'' \<and>
   Number (stopM1a ''stop_index'') = Some 0 \<and>
   stopIndex stopM1a = 0 \<and>
   stationLower stopM1a = ''tanah abang'' \<and>
   stopM1a ''time_est'' = Some ''00:10:00'' \<and>
   toNum (stopM1a ''time_est_min'') = Some 10 \<and>
   minuteOf stopM1a = Some 10"
  by (simp add: stopM1a_def number_eval lower_eval stop_eval)

lemma stopM1b_fields:
  "trainIdOf stopM1b = ''M1'' \<and>
   Number (stopM1b ''stop_index'') = Some 1 \<and>
   stopIndex stopM1b = 1 \<and>
   stationLower stopM1b = ''rangkasbitung'' \<and>
   stopM1b ''time_est'' = Some ''01:40:00'' \<and>
   toNum (stopM1b ''time_est_min'') = Some 100 \<and>
   minuteOf stopM1b = Some 100"
  by (simp add: stopM1b_def number_eval lower_eval stop_eval)








text \<open>The legs of the examples, and the stops of train 101 and of train 202 in order.\<close>

lemmas legs_eval =
  inboundLegs_def outboundLegs_def groupByTrain_def List.map_filter_def legAOf_def legBOf_def
  sortStops_def sortBy_def legMeta_def truthy_def Let_def

lemma dayPre_legs:
  "inboundLegs dayPre Map.empty ''Palmerah'' =
     [\<lparr>a_trainId = ''A1'', departVia = ''07:00:00'', arriveTA = ''07:20:00'', departViaMin = 420,
       arriveTAMin = 440, a_meta = None\<rparr>]"
  by (simp add: dayPre_def legs_eval lower_names stopA1a_fields stopA1b_fields)

lemma dayPost_legs:
  "outboundLegs dayPost Map.empty ''Rangkasbitung'' =
     [\<lparr>b_trainId = ''B1'', departTA = ''07:10:00'', arriveDest = Some ''08:55:00'',
       departTAMin = 430, arriveDestMin = Some 535, b_meta = None\<rparr>,
      \<lparr>b_trainId = ''B2'', departTA = ''07:45:00'', arriveDest = Some ''09:30:00'',
       departTAMin = 465, arriveDestMin = Some 570, b_meta = None\<rparr>]"
  by (simp add: dayPost_def legs_eval lower_names
      stopB1a_fields stopB1b_fields stopB2a_fields stopB2b_fields)

lemma nightPre_legs:
  "inboundLegs nightPre Map.empty ''Palmerah'' =
     [\<lparr>a_trainId = ''N1'', departVia = ''23:40:00'', arriveTA = ''23:50:00'', departViaMin = 1420,
       arriveTAMin = 1430, a_meta = None\<rparr>]"
  by (simp add: nightPre_def legs_eval lower_names stopN1a_fields stopN1b_fields)

lemma nightPost_legs:
  "outboundLegs nightPost Map.empty ''Rangkasbitung'' =
     [\<lparr>b_trainId = ''M1'', departTA = ''00:10:00'', arriveDest = Some ''01:40:00'',
       departTAMin = 10, arriveDestMin = Some 100, b_meta = None\<rparr>]"
  by (simp add: nightPost_def legs_eval lower_names stopM1a_fields stopM1b_fields)



lemma throughStops_result:
  "findThrough throughStops Map.empty ''Palmerah'' ''Sudirman'' =
     [\<lparr>train_id = ''101'', ka_name = None, route_name = None,
       depart_via_time = Some ''07:00:00'', via_index = 0, continues_to_dest = True\<rparr>]"
proof -
  have g: "groupByTrain throughStops =
             [(''101'', [stop101a, stop101b, stop101c]), (''202'', [stop202a, stop202b])]"
    by (simp add: groupByTrain_def throughStops_def
        stop101a_fields stop101b_fields stop101c_fields stop202a_fields stop202b_fields)
  have t1: "throughOf Map.empty ''Palmerah'' ''Sudirman'' (''101'', [stop101a, stop101b, stop101c]) =
      Some \<lparr>train_id = ''101'', ka_name = None, route_name = None,
            depart_via_time = Some ''07:00:00'', via_index = 0, continues_to_dest = True\<rparr>"
    by (simp add: throughOf_def sortStops_def sortBy_def Let_def lower_names numOr_def
        stop101a_fields stop101b_fields stop101c_fields)
  have t2: "throughOf Map.empty ''Palmerah'' ''Sudirman'' (''202'', [stop202a, stop202b]) = None"
    by (simp add: throughOf_def sortStops_def sortBy_def Let_def lower_names
        stop202a_fields stop202b_fields)
  show ?thesis
    by (simp add: findThrough_def g List.map_filter_def t1 t2 sortBy_def)
qed









section \<open>The claims\<close>

subsection \<open>Transfer pairs\<close>

text \<open>
  Claim C1. Let the minutes of all arrivals at the hub and of all departures from the hub lie
  in \<open>[0, 1440)\<close>. The pairs that \<^verbatim>\<open>buildTransferPairs\<close> returns are the pairs pushed for
  the inbound legs, one for each inbound leg that has a match. An inbound leg has a match if
  and only if some outbound leg has a wait (departure minus arrival, modulo 1440) within the
  optional bound. The outbound leg of the pair has that wait, and it is the least wait over all
  outbound legs: the three candidates of the search always hold a leg of least wait.
\<close>

theorem buildTransferPairs_nearest:
  assumes inb: "\<forall>a \<in> set (inboundLegs stopsPre trains via). 0 \<le> arriveTAMin a \<and> arriveTAMin a < 1440"
    and outb: "\<forall>b \<in> set (outboundLegs stopsPost trains dest). 0 \<le> departTAMin b \<and> departTAMin b < 1440"
  shows
    "set (buildTransferPairs stopsPre stopsPost trains via dest maxWaitMin) =
       {p. \<exists>a \<in> set (inboundLegs stopsPre trains via).
              matchLeg maxWaitMin (outboundLegs stopsPost trains dest) a = Some p} \<and>
     length (buildTransferPairs stopsPre stopsPost trains via dest maxWaitMin) =
       length (filter (\<lambda>a. matchLeg maxWaitMin (outboundLegs stopsPost trains dest) a \<noteq> None)
                 (inboundLegs stopsPre trains via)) \<and>
     (\<forall>a \<in> set (inboundLegs stopsPre trains via).
        (matchLeg maxWaitMin (outboundLegs stopsPost trains dest) a \<noteq> None \<longleftrightarrow>
           (\<exists>b \<in> set (outboundLegs stopsPost trains dest).
              withinWait maxWaitMin (waitDiffMin (arriveTAMin a) (departTAMin b)))) \<and>
        (\<forall>p. matchLeg maxWaitMin (outboundLegs stopsPost trains dest) a = Some p \<longrightarrow>
           (\<exists>b \<in> set (outboundLegs stopsPost trains dest).
              to_train_id p = b_trainId b \<and> depart_ta_time p = departTA b \<and>
              wait_min p = waitDiffMin (arriveTAMin a) (departTAMin b) \<and>
              wait_min p = (departTAMin b - arriveTAMin a)
                            - 1440 * real_of_int \<lfloor>(departTAMin b - arriveTAMin a) / 1440\<rfloor>) \<and>
           (\<forall>b \<in> set (outboundLegs stopsPost trains dest).
              wait_min p \<le> waitDiffMin (arriveTAMin a) (departTAMin b))) \<and>
        (outboundLegs stopsPost trains dest \<noteq> [] \<longrightarrow>
           (\<exists>c \<in> set (candidatesAt (outboundLegs stopsPost trains dest)
                         (lowerBound (outboundLegs stopsPost trains dest) (arriveTAMin a) 0
                            (length (outboundLegs stopsPost trains dest)))).
              \<forall>b \<in> set (outboundLegs stopsPost trains dest).
                waitDiffMin (arriveTAMin a) (departTAMin (outboundLegs stopsPost trains dest ! c))
                  \<le> waitDiffMin (arriveTAMin a) (departTAMin b))))"
proof (intro conjI ballI allI impI)
  show "set (buildTransferPairs stopsPre stopsPost trains via dest maxWaitMin) =
       {p. \<exists>a \<in> set (inboundLegs stopsPre trains via).
              matchLeg maxWaitMin (outboundLegs stopsPost trains dest) a = Some p}"
    by (rule buildTransferPairs_set)
next
  show "length (buildTransferPairs stopsPre stopsPost trains via dest maxWaitMin) =
       length (filter (\<lambda>a. matchLeg maxWaitMin (outboundLegs stopsPost trains dest) a \<noteq> None)
                 (inboundLegs stopsPre trains via))"
    by (rule buildTransferPairs_length)
next
  fix a assume a: "a \<in> set (inboundLegs stopsPre trains via)"
  then have arr: "0 \<le> arriveTAMin a" "arriveTAMin a < 1440" using inb by auto
  show "matchLeg maxWaitMin (outboundLegs stopsPost trains dest) a \<noteq> None \<longleftrightarrow>
           (\<exists>b \<in> set (outboundLegs stopsPost trains dest).
              withinWait maxWaitMin (waitDiffMin (arriveTAMin a) (departTAMin b)))"
    using matchLeg_None [OF sorted_outboundLegs outb arr, of maxWaitMin] by simp
next
  fix a p
  assume a: "a \<in> set (inboundLegs stopsPre trains via)"
    and m: "matchLeg maxWaitMin (outboundLegs stopsPost trains dest) a = Some p"
  have arr: "0 \<le> arriveTAMin a" "arriveTAMin a < 1440" using inb a by auto
  let ?legBs = "outboundLegs stopsPost trains dest"
  from matchLeg_Some [OF m] obtain j where
    j: "j < length ?legBs" "to_train_id p = b_trainId (?legBs ! j)"
      "depart_ta_time p = departTA (?legBs ! j)"
      "wait_min p = waitDiffMin (arriveTAMin a) (departTAMin (?legBs ! j))"
    by blast
  have mem: "?legBs ! j \<in> set ?legBs" using j(1) by simp
  then have "0 \<le> departTAMin (?legBs ! j) \<and> departTAMin (?legBs ! j) < 1440" using outb by blast
  then have "wait_min p = (departTAMin (?legBs ! j) - arriveTAMin a)
                - 1440 * real_of_int \<lfloor>(departTAMin (?legBs ! j) - arriveTAMin a) / 1440\<rfloor>"
    using waitDiffMin_mod [OF arr] j(4) by simp
  then show "\<exists>b \<in> set ?legBs.
              to_train_id p = b_trainId b \<and> depart_ta_time p = departTA b \<and>
              wait_min p = waitDiffMin (arriveTAMin a) (departTAMin b) \<and>
              wait_min p = (departTAMin b - arriveTAMin a)
                            - 1440 * real_of_int \<lfloor>(departTAMin b - arriveTAMin a) / 1440\<rfloor>"
    using mem j by blast
next
  fix a p b
  assume a: "a \<in> set (inboundLegs stopsPre trains via)"
    and m: "matchLeg maxWaitMin (outboundLegs stopsPost trains dest) a = Some p"
    and b: "b \<in> set (outboundLegs stopsPost trains dest)"
  have arr: "0 \<le> arriveTAMin a" "arriveTAMin a < 1440" using inb a by auto
  show "wait_min p \<le> waitDiffMin (arriveTAMin a) (departTAMin b)"
    using matchLeg_least [OF sorted_outboundLegs outb arr m] b by blast
next
  fix a
  assume a: "a \<in> set (inboundLegs stopsPre trains via)"
    and ne: "outboundLegs stopsPost trains dest \<noteq> []"
  have arr: "0 \<le> arriveTAMin a" "arriveTAMin a < 1440" using inb a by auto
  let ?legBs = "outboundLegs stopsPost trains dest"
  from candidates_hold_minimum [OF sorted_outboundLegs outb arr ne]
  obtain c where c: "c \<in> set (candidatesAt ?legBs (lowerBound ?legBs (arriveTAMin a) 0 (length ?legBs)))"
    "\<forall>i < length ?legBs. waitDiffMin (arriveTAMin a) (departTAMin (?legBs ! c))
                              \<le> waitDiffMin (arriveTAMin a) (departTAMin (?legBs ! i))"
    by blast
  from c(2) have "\<forall>b \<in> set ?legBs. waitDiffMin (arriveTAMin a) (departTAMin (?legBs ! c))
                              \<le> waitDiffMin (arriveTAMin a) (departTAMin b)"
    by (auto simp: in_set_conv_nth)
  with c(1) show "\<exists>c \<in> set (candidatesAt ?legBs (lowerBound ?legBs (arriveTAMin a) 0 (length ?legBs))).
              \<forall>b \<in> set ?legBs. waitDiffMin (arriveTAMin a) (departTAMin (?legBs ! c))
                  \<le> waitDiffMin (arriveTAMin a) (departTAMin b)"
    by blast
qed

theorem buildTransferPairs_nearest_witness:
  "map arriveTAMin (inboundLegs dayPre Map.empty ''Palmerah'') = [440] \<and>
   map departTAMin (outboundLegs dayPost Map.empty ''Rangkasbitung'') = [430, 465] \<and>
   map wait_min (buildTransferPairs dayPre dayPost Map.empty ''Palmerah'' ''Rangkasbitung'' None) = [25]"
proof -
  let ?legAs = "inboundLegs dayPre Map.empty ''Palmerah''"
  let ?legBs = "outboundLegs dayPost Map.empty ''Rangkasbitung''"
  let ?pairs = "buildTransferPairs dayPre dayPost Map.empty ''Palmerah'' ''Rangkasbitung'' None"
  let ?a = "\<lparr>a_trainId = ''A1'', departVia = ''07:00:00'', arriveTA = ''07:20:00'',
             departViaMin = 420, arriveTAMin = 440, a_meta = None\<rparr>"
  have inb: "\<forall>a \<in> set ?legAs. 0 \<le> arriveTAMin a \<and> arriveTAMin a < 1440"
    by (simp add: dayPre_legs)
  have outb: "\<forall>b \<in> set ?legBs. 0 \<le> departTAMin b \<and> departTAMin b < 1440"
    by (simp add: dayPost_legs)
  note nearest = buildTransferPairs_nearest [OF inb outb, of None]
  have a: "?a \<in> set ?legAs" by (simp add: dayPre_legs)
  have waits: "\<And>b. b \<in> set ?legBs \<Longrightarrow>
      waitDiffMin 440 (departTAMin b) = 25 \<or> waitDiffMin 440 (departTAMin b) = 1430"
    by (auto simp: dayPost_legs waitDiffMin_def)
  have "\<exists>b \<in> set ?legBs. withinWait None (waitDiffMin (arriveTAMin ?a) (departTAMin b))"
    by (auto simp: dayPost_legs withinWait_def)
  with nearest a have "matchLeg None ?legBs ?a \<noteq> None" by blast
  then obtain p where p: "matchLeg None ?legBs ?a = Some p" by blast
  with nearest a have
    some: "\<exists>b \<in> set ?legBs. wait_min p = waitDiffMin (arriveTAMin ?a) (departTAMin b)" and
    least: "\<forall>b \<in> set ?legBs. wait_min p \<le> waitDiffMin (arriveTAMin ?a) (departTAMin b)"
    by blast+
  from least have "wait_min p \<le> 25" by (simp add: dayPost_legs waitDiffMin_def)
  moreover have "wait_min p = 25 \<or> wait_min p = 1430"
  proof -
    from some obtain b where b: "b \<in> set ?legBs" "wait_min p = waitDiffMin (arriveTAMin ?a) (departTAMin b)"
      by blast
    show ?thesis using waits [OF b(1)] b(2) by simp
  qed
  ultimately have w: "wait_min p = 25" by auto
  have "?pairs = sortBy pairOrder [p]"
    by (simp add: buildTransferPairs_def Let_def List.map_filter_def dayPre_legs p [simplified dayPre_legs])
  then have "map wait_min ?pairs = [25]" by (simp add: sortBy_def w)
  then show ?thesis by (simp add: dayPre_legs dayPost_legs)
qed

text \<open>
  Claim C3. When the arrivals at the hub are before minute 1440 and the departures are not
  negative, every pair that \<^verbatim>\<open>buildTransferPairs\<close> returns has a wait of at least 0; and when a
  bound on the wait is given, no pair has a wait above it.
\<close>

theorem buildTransferPairs_wait_bounds:
  assumes inb: "\<forall>a \<in> set (inboundLegs stopsPre trains via). arriveTAMin a < 1440"
    and outb: "\<forall>b \<in> set (outboundLegs stopsPost trains dest). 0 \<le> departTAMin b"
  shows "\<forall>p \<in> set (buildTransferPairs stopsPre stopsPost trains via dest maxWaitMin).
           0 \<le> wait_min p \<and> (\<forall>m. maxWaitMin = Some m \<longrightarrow> wait_min p \<le> m)"
proof
  fix p assume "p \<in> set (buildTransferPairs stopsPre stopsPost trains via dest maxWaitMin)"
  then obtain a where a: "a \<in> set (inboundLegs stopsPre trains via)"
    and m: "matchLeg maxWaitMin (outboundLegs stopsPost trains dest) a = Some p"
    by (auto simp: buildTransferPairs_set)
  let ?legBs = "outboundLegs stopsPost trains dest"
  from matchLeg_Some [OF m] obtain j where
    j: "j < length ?legBs" "wait_min p = waitDiffMin (arriveTAMin a) (departTAMin (?legBs ! j))"
      "withinWait maxWaitMin (wait_min p)"
    by blast
  have "0 \<le> departTAMin (?legBs ! j)" using outb j(1) by simp
  moreover have "arriveTAMin a < 1440" using inb a by simp
  ultimately have "0 \<le> wait_min p" using j(2) by (simp add: waitDiffMin_nonneg)
  moreover have "\<forall>m. maxWaitMin = Some m \<longrightarrow> wait_min p \<le> m"
    using j(3) by (auto simp: withinWait_def)
  ultimately show "0 \<le> wait_min p \<and> (\<forall>m. maxWaitMin = Some m \<longrightarrow> wait_min p \<le> m)" by simp
qed

theorem buildTransferPairs_wait_bounds_witness:
  "map arriveTAMin (inboundLegs nightPre Map.empty ''Palmerah'') = [1430] \<and>
   map departTAMin (outboundLegs nightPost Map.empty ''Rangkasbitung'') = [10] \<and>
   map wait_min (buildTransferPairs nightPre nightPost Map.empty ''Palmerah'' ''Rangkasbitung'' (Some 30)) = [20] \<and>
   list_all (\<lambda>p. 0 \<le> wait_min p \<and> wait_min p \<le> 30)
     (buildTransferPairs nightPre nightPost Map.empty ''Palmerah'' ''Rangkasbitung'' (Some 30))"
proof -
  let ?pairs = "buildTransferPairs nightPre nightPost Map.empty ''Palmerah'' ''Rangkasbitung'' (Some 30)"
  have inb: "\<forall>a \<in> set (inboundLegs nightPre Map.empty ''Palmerah''). arriveTAMin a < 1440"
    by (simp add: nightPre_legs)
  have outb: "\<forall>b \<in> set (outboundLegs nightPost Map.empty ''Rangkasbitung''). 0 \<le> departTAMin b"
    by (simp add: nightPost_legs)
  have bounds: "list_all (\<lambda>p. 0 \<le> wait_min p \<and> wait_min p \<le> 30) ?pairs"
    using buildTransferPairs_wait_bounds [OF inb outb, of "Some 30"] by (simp add: list_all_iff)
  have "map_option wait_min
          (matchLeg (Some 30)
             [\<lparr>b_trainId = ''M1'', departTA = ''00:10:00'', arriveDest = Some ''01:40:00'',
               departTAMin = 10, arriveDestMin = Some 100, b_meta = None\<rparr>]
             \<lparr>a_trainId = ''N1'', departVia = ''23:40:00'', arriveTA = ''23:50:00'',
               departViaMin = 1420, arriveTAMin = 1430, a_meta = None\<rparr>) = Some 20"
    by (simp add: matchLeg_def lowerBound.simps candidatesAt_def addCand_def waitDiffMin_def Let_def)
  then have "map wait_min ?pairs = [20]"
    by (auto simp: buildTransferPairs_def Let_def List.map_filter_def nightPre_legs nightPost_legs
        sortBy_def)
  then show ?thesis using bounds by (simp add: nightPre_legs nightPost_legs)
qed

subsection \<open>Through trains\<close>








subsection \<open>The command module\<close>

text \<open>
  Claim C9. On every input the through command of the command module returns what the
  functions of through.ts return: \<^verbatim>\<open>ThroughCommand.findThrough\<close> and \<^verbatim>\<open>findThrough\<close> give the
  same list of results, and \<^verbatim>\<open>ThroughCommand.buildTransferPairs\<close> and \<^verbatim>\<open>buildTransferPairs\<close>
  give the same list of pairs, in the same order.
\<close>

theorem ThroughCommand_agrees:
  "ThroughCommand_findThrough stops trains via dest = findThrough stops trains via dest \<and>
   ThroughCommand_buildTransferPairs stopsPre stopsPost trains via dest maxWaitMin =
     buildTransferPairs stopsPre stopsPost trains via dest maxWaitMin"
  by (simp add: ThroughCommand_findThrough_def findThrough_def ThroughCommand_throughOf_eq
      ThroughCommand_buildTransferPairs_def buildTransferPairs_def inboundLegs_def outboundLegs_def
      ThroughCommand_legAOf_eq ThroughCommand_legBOf_eq)

theorem ThroughCommand_agrees_witness:
  "ThroughCommand_findThrough throughStops Map.empty ''Palmerah'' ''Sudirman'' =
     [\<lparr>train_id = ''101'', ka_name = None, route_name = None,
       depart_via_time = Some ''07:00:00'', via_index = 0, continues_to_dest = True\<rparr>] \<and>
   ThroughCommand_buildTransferPairs dayPre dayPost Map.empty ''Palmerah'' ''Rangkasbitung'' None =
     buildTransferPairs dayPre dayPost Map.empty ''Palmerah'' ''Rangkasbitung'' None"
  using ThroughCommand_agrees [where stops = throughStops and trains = Map.empty
      and via = "''Palmerah''" and dest = "''Sudirman''"]
    ThroughCommand_agrees [where stopsPre = dayPre and stopsPost = dayPost and trains = Map.empty
      and via = "''Palmerah''" and dest = "''Rangkasbitung''" and maxWaitMin = None]
    throughStops_result
  by simp


subsection \<open>Legs derived from stops\<close>





subsection \<open>Loading the legs\<close>





subsection \<open>The outliers of the audit\<close>




subsection \<open>The statistics of the segments\<close>




end
